theory Spec2Isabelle
  imports Main "HOL-Library.Word" "HOL-Library.Sublist"
begin

section \<open>JavaScript values as the handlers see them\<close>

text \<open>
  A JavaScript string is a sequence of 16-bit code units. The ASCII literals of the
  source are written with \<open>str\<close>; the Japanese literals are given by their code units.
\<close>

type_synonym jsstring = "16 word list"

definition str :: "string \<Rightarrow> jsstring" where
  "str s = map of_char s"

text \<open>
  A number is kept as the three observations the handlers can make of a double:
  whether it is falsy (\<open>+0\<close>, \<open>-0\<close>), whether it is finite (\<open>JSON.stringify\<close> prints
  \<open>null\<close> otherwise), and its \<open>ToString\<close> rendering.
\<close>

record jsnumber =
  isZero :: bool
  isFinite :: bool
  rendering :: jsstring

text \<open>
  The values \<open>JSON.parse\<close> can produce. An object is the list of its own properties in
  enumeration order; \<open>undefined\<close> is \<open>None\<close> of an option wherever a property may be
  missing.
\<close>

datatype json =
    JNull
  | JBool bool
  | JNumber jsnumber
  | JString jsstring
  | JArray "json list"
  | JObject "(jsstring \<times> json) list"

datatype jserror = TypeError | SyntaxError

subsection \<open>Decimal rendering of the integers the source prints\<close>

function decimal :: "nat \<Rightarrow> jsstring" where
  "decimal n = (if n < 10 then [of_nat (48 + n)] else decimal (n div 10) @ [of_nat (48 + n mod 10)])"
  by pat_completeness auto
termination
  by (relation "measure id") auto

declare decimal.simps [simp del]

definition numberOfNat :: "nat \<Rightarrow> jsnumber" where
  "numberOfNat n = \<lparr>isZero = (n = 0), isFinite = True, rendering = decimal n\<rparr>"

subsection \<open>Truthiness, property reads, string conversion\<close>

fun truthy :: "json \<Rightarrow> bool" where
  "truthy JNull = False"
| "truthy (JBool b) = b"
| "truthy (JNumber n) = (\<not> isZero n)"
| "truthy (JString s) = (s \<noteq> [])"
| "truthy (JArray xs) = True"
| "truthy (JObject kvs) = True"

text \<open>\<open>a || d\<close> where \<open>a\<close> may be \<open>undefined\<close>.\<close>

definition orElse :: "json option \<Rightarrow> json \<Rightarrow> json" where
  "orElse a d = (case a of None \<Rightarrow> d | Some v \<Rightarrow> if truthy v then v else d)"

text \<open>
  \<open>v.k\<close> for the property names the handlers read (\<open>name\<close>, \<open>message\<close>, \<open>content\<close>,
  \<open>isDone\<close>), none of which a built-in prototype defines: an object answers with its own
  property, \<open>null\<close> throws, every other value answers \<open>undefined\<close>.
\<close>

fun getProp :: "json \<Rightarrow> jsstring \<Rightarrow> jserror + json option" where
  "getProp JNull k = Inl TypeError"
| "getProp (JObject kvs) k = Inr (map_of kvs k)"
| "getProp v k = Inr None"

fun joinWith :: "jsstring \<Rightarrow> jsstring list \<Rightarrow> jsstring" where
  "joinWith sep [] = []"
| "joinWith sep [x] = x"
| "joinWith sep (x # y # ys) = x @ sep @ joinWith sep (y # ys)"

text \<open>
  \<open>ToString\<close> as a template literal applies it. An array joins its elements with commas,
  \<open>null\<close> elements printing as nothing. A parsed object prints \<open>[object Object]\<close> unless
  it has an own \<open>toString\<close> property, which is never callable and shadows the inherited
  method, so that the conversion throws.
\<close>

fun ToString :: "json \<Rightarrow> jserror + jsstring"
  and ToStringElems :: "json list \<Rightarrow> jserror + jsstring list" where
  "ToString JNull = Inr (str ''null'')"
| "ToString (JBool b) = Inr (if b then str ''true'' else str ''false'')"
| "ToString (JNumber n) = Inr (rendering n)"
| "ToString (JString s) = Inr s"
| "ToString (JArray xs) =
     (case ToStringElems xs of Inl e \<Rightarrow> Inl e | Inr ss \<Rightarrow> Inr (joinWith (str '','') ss))"
| "ToString (JObject kvs) =
     (if map_of kvs (str ''toString'') \<noteq> None then Inl TypeError
      else Inr (str ''[object Object]''))"
| "ToStringElems [] = Inr []"
| "ToStringElems (x # xs) =
     (case (if x = JNull then Inr [] else ToString x) of
        Inl e \<Rightarrow> Inl e
      | Inr s \<Rightarrow> (case ToStringElems xs of Inl e \<Rightarrow> Inl e | Inr ss \<Rightarrow> Inr (s # ss)))"

subsection \<open>\<open>JSON.stringify\<close>\<close>

definition hexDigit :: "nat \<Rightarrow> 16 word" where
  "hexDigit n = (if n < 10 then of_nat (48 + n) else of_nat (87 + n))"

definition unicodeEscape :: "16 word \<Rightarrow> jsstring" where
  "unicodeEscape c =
     [0x5C, 0x75, hexDigit (unat c div 4096 mod 16), hexDigit (unat c div 256 mod 16),
      hexDigit (unat c div 16 mod 16), hexDigit (unat c mod 16)]"

definition isHighSurrogate :: "16 word \<Rightarrow> bool" where
  "isHighSurrogate c = (0xD800 \<le> c \<and> c \<le> 0xDBFF)"

definition isLowSurrogate :: "16 word \<Rightarrow> bool" where
  "isLowSurrogate c = (0xDC00 \<le> c \<and> c \<le> 0xDFFF)"

text \<open>The escape of one code unit that is not half of a well-formed surrogate pair.\<close>

definition escapeUnit :: "16 word \<Rightarrow> jsstring" where
  "escapeUnit c =
     (if c = 0x08 then [0x5C, 0x62]
      else if c = 0x09 then [0x5C, 0x74]
      else if c = 0x0A then [0x5C, 0x6E]
      else if c = 0x0C then [0x5C, 0x66]
      else if c = 0x0D then [0x5C, 0x72]
      else if c = 0x22 then [0x5C, 0x22]
      else if c = 0x5C then [0x5C, 0x5C]
      else if c < 0x20 \<or> isHighSurrogate c \<or> isLowSurrogate c then unicodeEscape c
      else [c])"

fun quoteUnits :: "jsstring \<Rightarrow> jsstring" where
  "quoteUnits [] = []"
| "quoteUnits [c] = escapeUnit c"
| "quoteUnits (c # d # cs) =
     (if isHighSurrogate c \<and> isLowSurrogate d then c # d # quoteUnits cs
      else escapeUnit c @ quoteUnits (d # cs))"

definition QuoteJSONString :: "jsstring \<Rightarrow> jsstring" where
  "QuoteJSONString s = [0x22] @ quoteUnits s @ [0x22]"

fun JSON_stringify :: "json \<Rightarrow> jsstring"
  and stringifyElems :: "json list \<Rightarrow> jsstring list"
  and stringifyProps :: "(jsstring \<times> json) list \<Rightarrow> jsstring list" where
  "JSON_stringify JNull = str ''null''"
| "JSON_stringify (JBool b) = (if b then str ''true'' else str ''false'')"
| "JSON_stringify (JNumber n) = (if isFinite n then rendering n else str ''null'')"
| "JSON_stringify (JString s) = QuoteJSONString s"
| "JSON_stringify (JArray xs) = str ''['' @ joinWith (str '','') (stringifyElems xs) @ str '']''"
| "JSON_stringify (JObject kvs) = str ''{'' @ joinWith (str '','') (stringifyProps kvs) @ str ''}''"
| "stringifyElems [] = []"
| "stringifyElems (x # xs) = JSON_stringify x # stringifyElems xs"
| "stringifyProps [] = []"
| "stringifyProps ((k, v) # kvs) =
     (QuoteJSONString k @ str '':'' @ JSON_stringify v) # stringifyProps kvs"

section \<open>Events, responses and the runtime\<close>

record APIGatewayProxyEvent =
  httpMethod :: jsstring
  path :: jsstring
  queryStringParameters :: "(jsstring \<rightharpoonup> jsstring) option"
  pathParameters :: "(jsstring \<rightharpoonup> jsstring) option"
  eventBody :: "jsstring option"

record APIGatewayProxyResult =
  statusCode :: nat
  headers :: "(jsstring \<times> jsstring) list"
  body :: jsstring

text \<open>
  What an invocation reads from outside the program. \<open>jsonParse\<close> is \<open>JSON.parse\<close>, with
  \<open>None\<close> for a thrown \<open>SyntaxError\<close>; \<open>isoTime k\<close> is what the \<open>k\<close>-th upcoming
  \<open>new Date().toISOString()\<close> returns; \<open>dateNow\<close> is \<open>Date.now()\<close>, a count of
  milliseconds; \<open>randomBase36\<close> is \<open>Math.random().toString(36)\<close>; \<open>envFunctionName\<close> is
  \<open>process.env.FUNCTION_NAME\<close>.
\<close>

record runtime =
  jsonParse :: "jsstring \<rightharpoonup> json"
  isoTime :: "nat \<Rightarrow> jsstring"
  dateNow :: nat
  randomBase36 :: jsstring
  envFunctionName :: "jsstring option"

text \<open>The runtime after one reading of the clock.\<close>

definition tick :: "runtime \<Rightarrow> runtime" where
  "tick rt = rt\<lparr>isoTime := (\<lambda>k. isoTime rt (Suc k))\<rparr>"

section \<open>The greeting handler (hello-world/handler.ts)\<close>

definition msgMethodNotAllowed :: jsstring where
  "msgMethodNotAllowed =
     [0x30E1, 0x30BD, 0x30C3, 0x30C9, 0x304C, 0x8A31, 0x53EF, 0x3055, 0x308C, 0x3066, 0x3044,
      0x307E, 0x305B, 0x3093]"

definition msgInvalidJson :: jsstring where
  "msgInvalidJson =
     [0x30EA, 0x30AF, 0x30A8, 0x30B9, 0x30C8, 0x30DC, 0x30C7, 0x30A3, 0x304C, 0x7121, 0x52B9,
      0x306A, 0x004A, 0x0053, 0x004F, 0x004E, 0x5F62, 0x5F0F, 0x3067, 0x3059]"

definition hello_headers :: "(jsstring \<times> jsstring) list" where
  "hello_headers =
     [(str ''Content-Type'', str ''application/json''),
      (str ''Access-Control-Allow-Origin'', str ''*''),
      (str ''Access-Control-Allow-Headers'', str ''Content-Type''),
      (str ''Access-Control-Allow-Methods'', str ''GET, POST, OPTIONS'')]"

text \<open>\<open>process.env.FUNCTION_NAME || 'hello-world'\<close>\<close>

definition functionNameOf :: "runtime \<Rightarrow> jsstring" where
  "functionNameOf rt =
     (case envFunctionName rt of
        None \<Rightarrow> str ''hello-world''
      | Some n \<Rightarrow> if n = [] then str ''hello-world'' else n)"

definition hello_createErrorResponse :: "runtime \<Rightarrow> nat \<Rightarrow> jsstring \<Rightarrow> APIGatewayProxyResult" where
  "hello_createErrorResponse rt code message =
     \<lparr>statusCode = code,
      headers = hello_headers,
      body = JSON_stringify (JObject
        [(str ''error'', JString message),
         (str ''timestamp'', JString (isoTime rt 0)),
         (str ''statusCode'', JNumber (numberOfNat code))])\<rparr>"

text \<open>\<open>queryParams?.name || 'World'\<close>\<close>

definition queryName :: "APIGatewayProxyEvent \<Rightarrow> jsstring" where
  "queryName event =
     (case queryStringParameters event of
        None \<Rightarrow> str ''World''
      | Some queryParams \<Rightarrow>
          (case queryParams (str ''name'') of
             None \<Rightarrow> str ''World''
           | Some n \<Rightarrow> if n = [] then str ''World'' else n))"

definition handleGetRequest :: "runtime \<Rightarrow> APIGatewayProxyEvent \<Rightarrow> jserror + APIGatewayProxyResult" where
  "handleGetRequest rt event =
     (let userName = queryName event in
      Inr \<lparr>statusCode = 200,
           headers = hello_headers,
           body = JSON_stringify (JObject
             [(str ''message'', JString (str ''Hello '' @ userName @ str ''!'')),
              (str ''timestamp'', JString (isoTime rt 0)),
              (str ''method'', JString (str ''GET'')),
              (str ''functionName'', JString (functionNameOf rt))])\<rparr>)"

text \<open>
  The value bound to \<open>requestBody\<close>: \<open>None\<close> when \<open>JSON.parse\<close> throws, the empty object
  when the body is \<open>null\<close> or the empty string.
\<close>

definition parseRequestBody :: "runtime \<Rightarrow> APIGatewayProxyEvent \<Rightarrow> json option" where
  "parseRequestBody rt event =
     (case eventBody event of
        None \<Rightarrow> Some (JObject [])
      | Some b \<Rightarrow> if b = [] then Some (JObject []) else jsonParse rt b)"

text \<open>
  Reading a property of \<open>null\<close> and converting an object with an own \<open>toString\<close> throw
  outside the inner \<open>try\<close>, so the promise of \<open>handlePostRequest\<close> is rejected (\<open>Inl\<close>).
\<close>

definition handlePostRequest :: "runtime \<Rightarrow> APIGatewayProxyEvent \<Rightarrow> jserror + APIGatewayProxyResult" where
  "handlePostRequest rt event =
     (case parseRequestBody rt event of
        None \<Rightarrow> Inr (hello_createErrorResponse rt 400 msgInvalidJson)
      | Some requestBody \<Rightarrow>
          (case getProp requestBody (str ''name'') of
             Inl e \<Rightarrow> Inl e
           | Inr n \<Rightarrow>
              (case getProp requestBody (str ''message'') of
                 Inl e \<Rightarrow> Inl e
               | Inr m \<Rightarrow>
                  (let userName = orElse n (JString (str ''World''));
                       customMessage = orElse m (JString (str ''Hello''))
                   in case ToString customMessage of
                        Inl e \<Rightarrow> Inl e
                      | Inr cm \<Rightarrow>
                         (case ToString userName of
                            Inl e \<Rightarrow> Inl e
                          | Inr un \<Rightarrow>
                             Inr \<lparr>statusCode = 200,
                                  headers = hello_headers,
                                  body = JSON_stringify (JObject
                                    [(str ''message'', JString (cm @ str '' '' @ un @ str ''!'')),
                                     (str ''timestamp'', JString (isoTime rt 0)),
                                     (str ''method'', JString (str ''POST'')),
                                     (str ''receivedData'', requestBody),
                                     (str ''functionName'', JString (functionNameOf rt))])\<rparr>)))))"

text \<open>
  The handler logs first, reading the clock once. It returns the promise of the chosen
  operation without awaiting it, so its own \<open>catch\<close> (the 500 response) sees no
  rejection of that promise: the rejection is the handler's outcome.
\<close>

definition hello_handler :: "runtime \<Rightarrow> APIGatewayProxyEvent \<Rightarrow> jserror + APIGatewayProxyResult" where
  "hello_handler rt event =
     (let rt1 = tick rt in
      if httpMethod event = str ''GET'' then handleGetRequest rt1 event
      else if httpMethod event = str ''POST'' then handlePostRequest rt1 event
      else Inr (hello_createErrorResponse rt1 405 msgMethodNotAllowed))"

section \<open>The todo handler (todo-processor)\<close>

text \<open>
  The interface declares \<open>content\<close> a string and \<open>isDone\<close> a boolean; at run time both
  hold whatever the parsed body supplied, so the model keeps them as values.
\<close>

record TodoItem =
  itemId :: jsstring
  content :: json
  isDone :: json
  createdAt :: jsstring
  updatedAt :: jsstring

datatype TodoData = OneItem TodoItem | Items "TodoItem list"

record TodoResponse =
  success :: bool
  data :: "TodoData option"
  message :: "jsstring option"
  error :: "jsstring option"

definition sampleTodo :: jsstring where
  "sampleTodo = [0x30B5, 0x30F3, 0x30D7, 0x30EB] @ str ''Todo ''"

definition todoItemNo :: jsstring where
  "todoItemNo = str ''Todo'' @ [0x30A2, 0x30A4, 0x30C6, 0x30E0, 0x306E]"

definition succeeded :: jsstring where
  "succeeded = [0x306B, 0x6210, 0x529F, 0x3057, 0x307E, 0x3057, 0x305F]"

definition failed :: jsstring where
  "failed = [0x306B, 0x5931, 0x6557, 0x3057, 0x307E, 0x3057, 0x305F]"

definition msgGetOk :: jsstring where
  "msgGetOk = todoItemNo @ [0x53D6, 0x5F97] @ succeeded"

definition msgBodyRequired :: jsstring where
  "msgBodyRequired =
     [0x30EA, 0x30AF, 0x30A8, 0x30B9, 0x30C8, 0x30DC, 0x30C7, 0x30A3, 0x304C, 0x5FC5, 0x8981,
      0x3067, 0x3059]"

definition msgContentRequired :: jsstring where
  "msgContentRequired =
     str ''content'' @
     [0x30D5, 0x30A3, 0x30FC, 0x30EB, 0x30C9, 0x306F, 0x5FC5, 0x9808, 0x3067, 0x3001, 0x6587,
      0x5B57, 0x5217, 0x3067, 0x3042, 0x308B, 0x5FC5, 0x8981, 0x304C, 0x3042, 0x308A, 0x307E,
      0x3059]"

definition msgCreateOk :: jsstring where
  "msgCreateOk = todoItemNo @ [0x4F5C, 0x6210] @ succeeded"

definition msgCreateFailed :: jsstring where
  "msgCreateFailed = todoItemNo @ [0x4F5C, 0x6210] @ failed"

definition msgIdRequired :: jsstring where
  "msgIdRequired = todoItemNo @ str ''ID'' @ [0x304C, 0x5FC5, 0x8981, 0x3067, 0x3059]"

definition defaultContent :: jsstring where
  "defaultContent =
     [0x30C7, 0x30D5, 0x30A9, 0x30EB, 0x30C8, 0x30B3, 0x30F3, 0x30C6, 0x30F3, 0x30C4]"

definition msgUpdateOk :: jsstring where
  "msgUpdateOk = todoItemNo @ [0x66F4, 0x65B0] @ succeeded"

definition msgUpdateFailed :: jsstring where
  "msgUpdateFailed = todoItemNo @ [0x66F4, 0x65B0] @ failed"

definition msgDeleteOk :: "jsstring \<Rightarrow> jsstring" where
  "msgDeleteOk todoId =
     str ''Todo'' @ [0x30A2, 0x30A4, 0x30C6, 0x30E0, 0xFF08] @ str ''ID: '' @ todoId @
     [0xFF09, 0x306E, 0x524A, 0x9664] @ succeeded"

definition corsHeaders :: "(jsstring \<times> jsstring) list" where
  "corsHeaders =
     [(str ''Content-Type'', str ''application/json''),
      (str ''Access-Control-Allow-Origin'', str ''*''),
      (str ''Access-Control-Allow-Headers'', str ''Content-Type, Authorization''),
      (str ''Access-Control-Allow-Methods'', str ''GET, POST, PUT, DELETE, OPTIONS'')]"

text \<open>A failure envelope: the object literal \<open>{ success: false, error: ... }\<close>.\<close>

definition failure :: "jsstring \<Rightarrow> TodoResponse" where
  "failure e = \<lparr>success = False, data = None, message = None, error = Some e\<rparr>"

text \<open>The objects \<open>JSON.stringify\<close> receives, properties in the order the literals give.\<close>

definition itemJson :: "TodoItem \<Rightarrow> json" where
  "itemJson t =
     JObject [(str ''id'', JString (itemId t)), (str ''content'', content t),
              (str ''isDone'', isDone t), (str ''createdAt'', JString (createdAt t)),
              (str ''updatedAt'', JString (updatedAt t))]"

definition responseJson :: "TodoResponse \<Rightarrow> json" where
  "responseJson r =
     JObject ([(str ''success'', JBool (success r))] @
              (case data r of
                 None \<Rightarrow> []
               | Some (OneItem t) \<Rightarrow> [(str ''data'', itemJson t)]
               | Some (Items ts) \<Rightarrow> [(str ''data'', JArray (map itemJson ts))]) @
              (case message r of None \<Rightarrow> [] | Some m \<Rightarrow> [(str ''message'', JString m)]) @
              (case error r of None \<Rightarrow> [] | Some e \<Rightarrow> [(str ''error'', JString e)]))"

text \<open>Nothing in the \<open>try\<close> block of \<open>handleGetTodos\<close> throws; it reads the clock four times.\<close>

definition handleGetTodos :: "runtime \<Rightarrow> APIGatewayProxyEvent \<Rightarrow> TodoResponse" where
  "handleGetTodos rt event =
     (let mockTodos =
            [\<lparr>itemId = str ''1'', content = JString (sampleTodo @ str ''1''),
              isDone = JBool False, createdAt = isoTime rt 0, updatedAt = isoTime rt 1\<rparr>,
             \<lparr>itemId = str ''2'', content = JString (sampleTodo @ str ''2''),
              isDone = JBool True, createdAt = isoTime rt 2, updatedAt = isoTime rt 3\<rparr>]
      in \<lparr>success = True, data = Some (Items mockTodos), message = Some msgGetOk,
          error = None\<rparr>)"

text \<open>
  \<open>`todo-${Date.now()}-${Math.random().toString(36).substr(2, 9)}`\<close>: \<open>Date.now()\<close> is a
  non-negative integer below \<open>10^21\<close>, which the template prints in decimal;
  \<open>substr(2, 9)\<close> keeps at most nine code units from index 2 on.
\<close>

definition generateUniqueId :: "runtime \<Rightarrow> jsstring" where
  "generateUniqueId rt =
     str ''todo-'' @ decimal (dateNow rt) @ str ''-'' @ take 9 (drop 2 (randomBase36 rt))"

text \<open>
  Each operation is a \<open>try\<close> block, whose exceptions are \<open>Inl\<close>, under a \<open>catch\<close> that
  turns every exception into the operation's failure envelope.
\<close>

definition createTodoTry :: "runtime \<Rightarrow> APIGatewayProxyEvent \<Rightarrow> jserror + TodoResponse" where
  "createTodoTry rt event =
     (case eventBody event of
        None \<Rightarrow> Inr (failure msgBodyRequired)
      | Some b \<Rightarrow>
          if b = [] then Inr (failure msgBodyRequired)
          else
            (case jsonParse rt b of
               None \<Rightarrow> Inl SyntaxError
             | Some todoData \<Rightarrow>
                (case getProp todoData (str ''content'') of
                   Inl e \<Rightarrow> Inl e
                 | Inr c \<Rightarrow>
                    (case c of
                       Some (JString s) \<Rightarrow>
                         if s = [] then Inr (failure msgContentRequired)
                         else
                           (case getProp todoData (str ''isDone'') of
                              Inl e \<Rightarrow> Inl e
                            | Inr d \<Rightarrow>
                               (let newTodo =
                                      \<lparr>itemId = generateUniqueId rt, content = JString s,
                                       isDone = orElse d (JBool False),
                                       createdAt = isoTime rt 0, updatedAt = isoTime rt 1\<rparr>
                                in Inr \<lparr>success = True, data = Some (OneItem newTodo),
                                        message = Some msgCreateOk, error = None\<rparr>))
                     | _ \<Rightarrow> Inr (failure msgContentRequired)))))"

definition handleCreateTodo :: "runtime \<Rightarrow> APIGatewayProxyEvent \<Rightarrow> TodoResponse" where
  "handleCreateTodo rt event =
     (case createTodoTry rt event of Inl e \<Rightarrow> failure msgCreateFailed | Inr r \<Rightarrow> r)"

text \<open>\<open>event.pathParameters?.id\<close>\<close>

definition pathId :: "APIGatewayProxyEvent \<Rightarrow> jsstring option" where
  "pathId event = (case pathParameters event of None \<Rightarrow> None | Some ps \<Rightarrow> ps (str ''id''))"

definition updateTodoTry :: "runtime \<Rightarrow> APIGatewayProxyEvent \<Rightarrow> jserror + TodoResponse" where
  "updateTodoTry rt event =
     (case pathId event of
        None \<Rightarrow> Inr (failure msgIdRequired)
      | Some todoId \<Rightarrow>
          if todoId = [] then Inr (failure msgIdRequired)
          else
            (case eventBody event of
               None \<Rightarrow> Inr (failure msgBodyRequired)
             | Some b \<Rightarrow>
                 if b = [] then Inr (failure msgBodyRequired)
                 else
                   (case jsonParse rt b of
                      None \<Rightarrow> Inl SyntaxError
                    | Some updateData \<Rightarrow>
                       (case getProp updateData (str ''content'') of
                          Inl e \<Rightarrow> Inl e
                        | Inr c \<Rightarrow>
                           (case getProp updateData (str ''isDone'') of
                              Inl e \<Rightarrow> Inl e
                            | Inr d \<Rightarrow>
                               (let updatedTodo =
                                      \<lparr>itemId = todoId,
                                       content = orElse c (JString defaultContent),
                                       isDone = orElse d (JBool False),
                                       createdAt = str ''2024-01-01T00:00:00.000Z'',
                                       updatedAt = isoTime rt 0\<rparr>
                                in Inr \<lparr>success = True, data = Some (OneItem updatedTodo),
                                        message = Some msgUpdateOk, error = None\<rparr>))))))"

definition handleUpdateTodo :: "runtime \<Rightarrow> APIGatewayProxyEvent \<Rightarrow> TodoResponse" where
  "handleUpdateTodo rt event =
     (case updateTodoTry rt event of Inl e \<Rightarrow> failure msgUpdateFailed | Inr r \<Rightarrow> r)"

text \<open>Nothing in the \<open>try\<close> block of \<open>handleDeleteTodo\<close> throws.\<close>

definition handleDeleteTodo :: "runtime \<Rightarrow> APIGatewayProxyEvent \<Rightarrow> TodoResponse" where
  "handleDeleteTodo rt event =
     (case pathId event of
        None \<Rightarrow> failure msgIdRequired
      | Some todoId \<Rightarrow>
          if todoId = [] then failure msgIdRequired
          else \<lparr>success = True, data = None, message = Some (msgDeleteOk todoId),
                error = None\<rparr>)"

text \<open>The object literal that the error response serialises.\<close>

definition errorEnvelope :: "runtime \<Rightarrow> nat \<Rightarrow> jsstring \<Rightarrow> (jsstring \<times> json) list" where
  "errorEnvelope rt code msg =
     [(str ''success'', JBool False),
      (str ''error'', JString msg),
      (str ''timestamp'', JString (isoTime rt 0)),
      (str ''statusCode'', JNumber (numberOfNat code))]"

definition todo_createErrorResponse ::
  "runtime \<Rightarrow> nat \<Rightarrow> jsstring \<Rightarrow> (jsstring \<times> jsstring) list \<Rightarrow> APIGatewayProxyResult" where
  "todo_createErrorResponse rt code msg hdrs =
     \<lparr>statusCode = code, headers = hdrs,
      body = JSON_stringify (JObject (errorEnvelope rt code msg))\<rparr>"

text \<open>The response the handler builds from an operation's envelope.\<close>

definition respond :: "TodoResponse \<Rightarrow> APIGatewayProxyResult" where
  "respond result =
     \<lparr>statusCode = (if success result then 200 else 400), headers = corsHeaders,
      body = JSON_stringify (responseJson result)\<rparr>"

text \<open>
  The handler logs first, reading the clock once, and awaits each operation. The
  operations catch their own exceptions and serialising an envelope cannot throw, so
  the handler's \<open>catch\<close> (the 500 response) is never entered.
\<close>

definition todo_handler :: "runtime \<Rightarrow> APIGatewayProxyEvent \<Rightarrow> jserror + APIGatewayProxyResult" where
  "todo_handler rt event =
     (let rt1 = tick rt in
      if httpMethod event = str ''OPTIONS'' then
        Inr \<lparr>statusCode = 200, headers = corsHeaders, body = []\<rparr>
      else if httpMethod event = str ''GET'' then Inr (respond (handleGetTodos rt1 event))
      else if httpMethod event = str ''POST'' then Inr (respond (handleCreateTodo rt1 event))
      else if httpMethod event = str ''PUT'' then Inr (respond (handleUpdateTodo rt1 event))
      else if httpMethod event = str ''DELETE'' then Inr (respond (handleDeleteTodo rt1 event))
      else Inr (todo_createErrorResponse rt1 405 msgMethodNotAllowed corsHeaders))"

section \<open>Properties of responses and sample inputs\<close>

text \<open>The envelope invariant: a failure carries an error and no payload.\<close>

definition failureHasError :: "TodoResponse \<Rightarrow> bool" where
  "failureHasError r = (\<not> success r \<longrightarrow> error r \<noteq> None \<and> data r = None)"

text \<open>A parsed body whose \<open>content\<close> is a non-empty string.\<close>

definition validContent :: "json \<Rightarrow> bool" where
  "validContent j =
     (case getProp j (str ''content'') of
        Inr (Some (JString s)) \<Rightarrow> s \<noteq> []
      | _ \<Rightarrow> False)"

text \<open>The item of a single-item envelope.\<close>

definition itemOf :: "TodoResponse \<Rightarrow> TodoItem option" where
  "itemOf r = (case data r of Some (OneItem t) \<Rightarrow> Some t | _ \<Rightarrow> None)"

text \<open>
  A runtime to evaluate the handlers at: its \<open>jsonParse\<close> answers as \<open>JSON.parse\<close> does on
  the six texts listed and throws on every other text, of which only \<open>{broken\<close> is used.
\<close>

definition sampleRuntime :: runtime where
  \<open>sampleRuntime =
     \<lparr>jsonParse = map_of
        [(str ''null'', JNull),
         (str ''{}'', JObject []),
         (str ''{"content":"buy milk"}'', JObject [(str ''content'', JString (str ''buy milk''))]),
         (str ''{"content":"feed cat"}'', JObject [(str ''content'', JString (str ''feed cat''))]),
         (str ''{"content":""}'', JObject [(str ''content'', JString [])]),
         (str ''{"name":"Ada","message":"Welcome"}'',
            JObject [(str ''name'', JString (str ''Ada'')),
                     (str ''message'', JString (str ''Welcome''))])],
      isoTime = (\<lambda>k. str ''2024-05-01T12:00:00.000Z''),
      dateNow = 1714564800000,
      randomBase36 = str ''0.k3j9x0q2mzp'',
      envFunctionName = Some (str ''hello-world'')\<rparr>\<close>

text \<open>The same instant with another random number, equal in its first nine digits.\<close>

definition sampleRuntime2 :: runtime where
  "sampleRuntime2 = sampleRuntime\<lparr>randomBase36 := str ''0.k3j9x0q2m4c''\<rparr>"

text \<open>
  An event with the given method, \<open>name\<close> query parameter, \<open>id\<close> path parameter and
  body.
\<close>

definition sampleEvent ::
  "string \<Rightarrow> jsstring option \<Rightarrow> jsstring option \<Rightarrow> jsstring option \<Rightarrow> APIGatewayProxyEvent" where
  "sampleEvent m qname pid b =
     \<lparr>httpMethod = str m,
      path = [],
      queryStringParameters = map_option (\<lambda>n. [str ''name'' \<mapsto> n]) qname,
      pathParameters = map_option (\<lambda>i. [str ''id'' \<mapsto> i]) pid,
      eventBody = b\<rparr>"

section \<open>Auxiliary facts\<close>

subsection \<open>Decimal rendering\<close>

lemma unat_digit: "d < 10 \<Longrightarrow> unat (of_nat (48 + d) :: 16 word) = 48 + d"
proof -
  assume d: "d < 10"
  have "unat (of_nat (48 + d) :: 16 word) = (48 + d) mod 2 ^ LENGTH(16)"
    by (rule unat_of_nat)
  also have "\<dots> = 48 + d" using d by simp
  finally show ?thesis .
qed

lemma digit_inj:
  assumes "a < 10" "b < 10" "(of_nat (48 + a) :: 16 word) = of_nat (48 + b)"
  shows "a = b"
proof -
  have "unat (of_nat (48 + a) :: 16 word) = unat (of_nat (48 + b) :: 16 word)"
    using assms(3) by (rule arg_cong)
  then have "48 + a = 48 + b"
    unfolding unat_digit [OF assms(1)] unat_digit [OF assms(2)] .
  then show ?thesis by simp
qed

lemma digit_not_hyphen: "d < 10 \<Longrightarrow> (of_nat (48 + d) :: 16 word) \<noteq> 0x2D"
proof
  assume d: "d < 10" and e: "(of_nat (48 + d) :: 16 word) = 0x2D"
  have "unat (of_nat (48 + d) :: 16 word) = unat (0x2D :: 16 word)"
    using e by (rule arg_cong)
  then have "48 + d = unat (0x2D :: 16 word)"
    unfolding unat_digit [OF d] .
  then show False by simp
qed

lemma decimal_nonempty: "decimal n \<noteq> []"
  by (subst decimal.simps) simp

lemma decimal_no_hyphen: "0x2D \<notin> set (decimal n)"
proof (induction n rule: decimal.induct)
  case (1 n)
  show ?case
  proof (cases "n < 10")
    case True
    then show ?thesis using digit_not_hyphen [of n] by (subst decimal.simps) auto
  next
    case False
    then show ?thesis using 1 digit_not_hyphen [of "n mod 10"]
      by (subst decimal.simps) auto
  qed
qed

lemma decimal_inj: "decimal m = decimal n \<Longrightarrow> m = n"
proof (induction m arbitrary: n rule: decimal.induct)
  case (1 m)
  show ?case
  proof (cases "m < 10")
    case small_m: True
    show ?thesis
    proof (cases "n < 10")
      case True
      then show ?thesis using small_m "1.prems" digit_inj [of m n]
        by (simp add: decimal.simps [of m] decimal.simps [of n])
    next
      case False
      then show ?thesis using small_m "1.prems" decimal_nonempty [of "n div 10"]
        by (simp add: decimal.simps [of m] decimal.simps [of n])
    qed
  next
    case big_m: False
    show ?thesis
    proof (cases "n < 10")
      case True
      then show ?thesis using big_m "1.prems" decimal_nonempty [of "m div 10"]
        by (simp add: decimal.simps [of m] decimal.simps [of n])
    next
      case False
      have "decimal (m div 10) @ [of_nat (48 + m mod 10)] =
            decimal (n div 10) @ [of_nat (48 + n mod 10)]"
        using big_m False "1.prems" by (simp add: decimal.simps [of m] decimal.simps [of n])
      then have front: "decimal (m div 10) = decimal (n div 10)"
        and last_digit: "(of_nat (48 + m mod 10) :: 16 word) = of_nat (48 + n mod 10)"
        by simp_all
      have "m div 10 = n div 10" using "1.IH" [OF big_m front] .
      moreover have "m mod 10 = n mod 10" using digit_inj [OF _ _ last_digit] by simp
      ultimately show ?thesis by (metis div_mult_mod_eq)
    qed
  qed
qed

lemma split_at_separator:
  assumes "x \<notin> set a" "x \<notin> set b" "a @ x # s = b @ x # t"
  shows "a = b \<and> s = t"
  using assms
proof (induction a arbitrary: b)
  case Nil
  then show ?case by (cases b) auto
next
  case (Cons y a)
  then show ?case by (cases b) auto
qed

subsection \<open>String quoting\<close>

lemma quoteUnits_no_high:
  "list_all (\<lambda>c. \<not> isHighSurrogate c) xs \<Longrightarrow>
   quoteUnits (xs @ ys) = concat (map escapeUnit xs) @ quoteUnits ys"
proof (induction xs)
  case Nil
  then show ?case by simp
next
  case (Cons x xs)
  then show ?case by (cases "xs @ ys") auto
qed

lemma quoteUnits_before_non_low:
  "\<not> isLowSurrogate d \<Longrightarrow> quoteUnits (xs @ d # ys) = quoteUnits xs @ quoteUnits (d # ys)"
  by (induction xs rule: quoteUnits.induct) auto

subsection \<open>The operations keep the envelope invariant\<close>

lemma getTodos_ok: "failureHasError (handleGetTodos rt event)"
  by (simp add: handleGetTodos_def failureHasError_def Let_def)

lemma createTodo_ok: "failureHasError (handleCreateTodo rt event)"
  by (auto simp: handleCreateTodo_def createTodoTry_def failure_def failureHasError_def Let_def
      split: sum.splits option.splits json.splits if_splits)

lemma updateTodo_ok: "failureHasError (handleUpdateTodo rt event)"
  by (auto simp: handleUpdateTodo_def updateTodoTry_def failure_def failureHasError_def Let_def
      split: sum.splits option.splits if_splits)

lemma deleteTodo_ok: "failureHasError (handleDeleteTodo rt event)"
  by (auto simp: handleDeleteTodo_def failure_def failureHasError_def split: option.splits)

subsection \<open>Quoting the greeting\<close>

lemma escapeUnit_ascii:
  "escapeUnit 0x20 = [0x20]" "escapeUnit 0x21 = [0x21]" "escapeUnit 0x48 = [0x48]"
  "escapeUnit 0x65 = [0x65]" "escapeUnit 0x6C = [0x6C]" "escapeUnit 0x6F = [0x6F]"
  by (simp_all add: escapeUnit_def isHighSurrogate_def isLowSurrogate_def)

lemma quote_greeting:
  "quoteUnits (str ''Hello '' @ n @ str ''!'') = str ''Hello '' @ quoteUnits n @ str ''!''"
proof -
  have "quoteUnits (str ''Hello '' @ (n @ str ''!'')) =
        concat (map escapeUnit (str ''Hello '')) @ quoteUnits (n @ str ''!'')"
    by (rule quoteUnits_no_high) (simp add: str_def isHighSurrogate_def)
  moreover have "quoteUnits (n @ str ''!'') = quoteUnits n @ quoteUnits (str ''!'')"
    using quoteUnits_before_non_low [of "0x21" n "[]"]
    by (simp add: str_def isLowSurrogate_def)
  ultimately show ?thesis by (simp add: str_def escapeUnit_ascii)
qed

subsection \<open>The create operation\<close>

lemma jsonParse_tick [simp]: "jsonParse (tick rt) = jsonParse rt"
  by (simp add: tick_def)

lemma method_distinct:
  "str ''POST'' \<noteq> str ''OPTIONS''" "str ''POST'' \<noteq> str ''GET''"
  by (simp_all add: str_def)

lemma todo_handler_POST:
  "httpMethod event = str ''POST'' \<Longrightarrow>
   todo_handler rt event = Inr (respond (handleCreateTodo (tick rt) event))"
  by (simp add: todo_handler_def method_distinct)

lemma create_no_body:
  "eventBody event = None \<or> eventBody event = Some [] \<Longrightarrow>
   handleCreateTodo rt event = failure msgBodyRequired"
  by (auto simp: handleCreateTodo_def createTodoTry_def)

lemma create_invalid_content:
  assumes "eventBody event = Some b" "b \<noteq> []" "jsonParse rt b = Some j" "\<not> validContent j"
  shows "handleCreateTodo rt event = failure msgContentRequired \<or>
         handleCreateTodo rt event = failure msgCreateFailed"
proof (cases "getProp j (str ''content'')")
  case (Inl e)
  then show ?thesis using assms by (simp add: handleCreateTodo_def createTodoTry_def)
next
  case (Inr c)
  then show ?thesis using assms
    by (simp add: handleCreateTodo_def createTodoTry_def validContent_def
        split: option.splits json.splits)
qed

lemma generateUniqueId_eq_iff:
  "generateUniqueId rt1 = generateUniqueId rt2 \<longleftrightarrow>
   dateNow rt1 = dateNow rt2 \<and>
   take 9 (drop 2 (randomBase36 rt1)) = take 9 (drop 2 (randomBase36 rt2))"
proof
  assume "generateUniqueId rt1 = generateUniqueId rt2"
  then have "decimal (dateNow rt1) @ 0x2D # take 9 (drop 2 (randomBase36 rt1)) =
             decimal (dateNow rt2) @ 0x2D # take 9 (drop 2 (randomBase36 rt2))"
    by (simp add: generateUniqueId_def str_def)
  then have "decimal (dateNow rt1) = decimal (dateNow rt2) \<and>
             take 9 (drop 2 (randomBase36 rt1)) = take 9 (drop 2 (randomBase36 rt2))"
    by (rule split_at_separator [OF decimal_no_hyphen decimal_no_hyphen])
  then show "dateNow rt1 = dateNow rt2 \<and>
             take 9 (drop 2 (randomBase36 rt1)) = take 9 (drop 2 (randomBase36 rt2))"
    using decimal_inj by blast
next
  assume "dateNow rt1 = dateNow rt2 \<and>
          take 9 (drop 2 (randomBase36 rt1)) = take 9 (drop 2 (randomBase36 rt2))"
  then show "generateUniqueId rt1 = generateUniqueId rt2"
    by (simp add: generateUniqueId_def)
qed

section \<open>The claims\<close>

text \<open>
  The todo handler answers every \<open>OPTIONS\<close> request with status 200 and an empty body.
\<close>

lemma todo_handler_OPTIONS:
  "todo_handler rt (event\<lparr>httpMethod := str ''OPTIONS''\<rparr>) =
     Inr \<lparr>statusCode = 200, headers = corsHeaders, body = []\<rparr>"
  by (simp add: todo_handler_def)

text \<open>
  The greeting handler has no \<open>OPTIONS\<close> case: the request falls to the default branch.
\<close>

lemma hello_handler_OPTIONS_default:
  "hello_handler rt (event\<lparr>httpMethod := str ''OPTIONS''\<rparr>) =
     Inr (hello_createErrorResponse (tick rt) 405 msgMethodNotAllowed)"
  by (simp add: hello_handler_def str_def)

text \<open>
  C1. The claim: for every event with method \<open>OPTIONS\<close>, each of the two handlers
  returns status 200 and an empty body. The todo handler does
  (\<open>todo_handler_OPTIONS\<close>). The greeting handler, whose every response advertises
  \<open>OPTIONS\<close> in \<open>Access-Control-Allow-Methods\<close>, does not: on an \<open>OPTIONS\<close> request it
  returns the method-not-allowed response, with status 405 and a body that is not empty.
\<close>

theorem hello_handler_OPTIONS_is_405:
  "hello_handler sampleRuntime (sampleEvent ''OPTIONS'' None None None) =
     Inr (hello_createErrorResponse (tick sampleRuntime) 405 msgMethodNotAllowed) \<and>
   statusCode (hello_createErrorResponse (tick sampleRuntime) 405 msgMethodNotAllowed) = 405 \<and>
   body (hello_createErrorResponse (tick sampleRuntime) 405 msgMethodNotAllowed) \<noteq> []"
  by (simp add: hello_handler_def sampleEvent_def str_def hello_createErrorResponse_def)

text \<open>
  C2. For every event, each of the four todo operations returns an envelope in which
  \<open>success = false\<close> implies that the error is present and the payload absent; and the
  object that the todo handler's error-response constructor serialises has
  \<open>success = false\<close>, the error message, and no \<open>data\<close> property.
\<close>

theorem todo_envelope_invariant:
  "failureHasError (handleGetTodos rt event) \<and>
   failureHasError (handleCreateTodo rt event) \<and>
   failureHasError (handleUpdateTodo rt event) \<and>
   failureHasError (handleDeleteTodo rt event) \<and>
   body (todo_createErrorResponse rt code msg hdrs) =
     JSON_stringify (JObject (errorEnvelope rt code msg)) \<and>
   map_of (errorEnvelope rt code msg) (str ''success'') = Some (JBool False) \<and>
   map_of (errorEnvelope rt code msg) (str ''error'') = Some (JString msg) \<and>
   map_of (errorEnvelope rt code msg) (str ''data'') = None"
proof -
  have "map_of (errorEnvelope rt code msg) (str ''success'') = Some (JBool False)"
    by (simp add: errorEnvelope_def str_def)
  moreover have "map_of (errorEnvelope rt code msg) (str ''error'') = Some (JString msg)"
    by (simp add: errorEnvelope_def str_def)
  moreover have "map_of (errorEnvelope rt code msg) (str ''data'') = None"
    by (simp add: errorEnvelope_def str_def)
  moreover have "body (todo_createErrorResponse rt code msg hdrs) =
     JSON_stringify (JObject (errorEnvelope rt code msg))"
    by (simp add: todo_createErrorResponse_def)
  ultimately show ?thesis
    using getTodos_ok createTodo_ok updateTodo_ok deleteTodo_ok by blast
qed

theorem todo_envelope_invariant_witness:
  "\<not> success (handleCreateTodo sampleRuntime (sampleEvent ''POST'' None None None)) \<and>
   error (handleCreateTodo sampleRuntime (sampleEvent ''POST'' None None None)) =
     Some msgBodyRequired \<and>
   data (handleCreateTodo sampleRuntime (sampleEvent ''POST'' None None None)) = None \<and>
   \<not> success (handleUpdateTodo sampleRuntime
       (sampleEvent ''PUT'' None (Some (str ''42'')) (Some (str ''null'')))) \<and>
   failureHasError (handleUpdateTodo sampleRuntime
       (sampleEvent ''PUT'' None (Some (str ''42'')) (Some (str ''null''))))"
  using todo_envelope_invariant [of sampleRuntime "sampleEvent ''POST'' None None None"]
    todo_envelope_invariant
      [of sampleRuntime "sampleEvent ''PUT'' None (Some (str ''42'')) (Some (str ''null''))"]
  by (simp add: handleCreateTodo_def createTodoTry_def sampleEvent_def failure_def
      handleUpdateTodo_def updateTodoTry_def pathId_def sampleRuntime_def str_def
      failureHasError_def)

text \<open>
  C3. The claim: for every GET request to the greeting handler the response has status
  200 and its body contains, verbatim, the name of the query parameters, \<open>World\<close> when
  there is none. The status and the default hold. The body is a JSON text, in which
  \<open>JSON.stringify\<close> escapes the double quote, the backslash, the control characters and
  the unpaired surrogates: the body holds the quoted name, which is the name itself
  exactly when quoting leaves it unchanged. Here \<open>queryName\<close> is the name the handler
  greets: the \<open>name\<close> query parameter, or \<open>World\<close> when it is missing or empty.
\<close>

theorem get_greets_name:
  assumes "httpMethod event = str ''GET''"
  shows "(\<exists>r. hello_handler rt event = Inr r \<and> statusCode r = 200 \<and>
     body r = JSON_stringify (JObject
       [(str ''message'', JString (str ''Hello '' @ queryName event @ str ''!'')),
        (str ''timestamp'', JString (isoTime rt 1)),
        (str ''method'', JString (str ''GET'')),
        (str ''functionName'', JString (functionNameOf rt))]) \<and>
     (quoteUnits (queryName event) = queryName event \<longrightarrow>
        sublist (queryName event) (body r))) \<and>
     (queryStringParameters event = None \<longrightarrow> queryName event = str ''World'') \<and>
     (\<forall>q. queryStringParameters event = Some q \<and> q (str ''name'') = None \<longrightarrow>
        queryName event = str ''World'') \<and>
     (\<forall>q. queryStringParameters event = Some q \<and> q (str ''name'') = Some [] \<longrightarrow>
        queryName event = str ''World'') \<and>
     (\<forall>q n. queryStringParameters event = Some q \<and> q (str ''name'') = Some n \<and> n \<noteq> [] \<longrightarrow>
        queryName event = n)"
proof -
  let ?n = "queryName event"
  let ?b = "JSON_stringify (JObject
       [(str ''message'', JString (str ''Hello '' @ ?n @ str ''!'')),
        (str ''timestamp'', JString (isoTime rt 1)),
        (str ''method'', JString (str ''GET'')),
        (str ''functionName'', JString (functionNameOf rt))])"
  have run: "hello_handler rt event =
      Inr \<lparr>statusCode = 200, headers = hello_headers, body = ?b\<rparr>"
    using assms by (simp add: hello_handler_def handleGetRequest_def tick_def functionNameOf_def)
  have "\<exists>ps ss. ?b = ps @ quoteUnits ?n @ ss"
  proof -
    have "?b = (str ''{'' @ [0x22] @ quoteUnits (str ''message'') @ [0x22] @ str '':'' @ [0x22] @ str ''Hello '')
       @ quoteUnits ?n @ (str ''!'' @ [0x22] @ str '','' @
          joinWith (str '','') (stringifyProps
            [(str ''timestamp'', JString (isoTime rt 1)),
             (str ''method'', JString (str ''GET'')),
             (str ''functionName'', JString (functionNameOf rt))]) @ str ''}'')"
      by (simp add: QuoteJSONString_def quote_greeting)
    then show ?thesis by blast
  qed
  then obtain ps ss where split: "?b = ps @ quoteUnits ?n @ ss" by blast
  have "quoteUnits ?n = ?n \<longrightarrow> sublist ?n ?b"
  proof
    assume "quoteUnits ?n = ?n"
    with split have "?b = ps @ ?n @ ss" by simp
    then show "sublist ?n ?b" by (simp only: sublist_appendI)
  qed
  with run have response: "\<exists>r. hello_handler rt event = Inr r \<and> statusCode r = 200 \<and>
     body r = ?b \<and> (quoteUnits ?n = ?n \<longrightarrow> sublist ?n (body r))"
    by simp
  have absent: "queryStringParameters event = None \<longrightarrow> ?n = str ''World''"
    by (simp add: queryName_def)
  have unnamed: "\<forall>q. queryStringParameters event = Some q \<and> q (str ''name'') = None \<longrightarrow>
      ?n = str ''World''"
    by (simp add: queryName_def)
  have named: "\<forall>q n. queryStringParameters event = Some q \<and> q (str ''name'') = Some n \<and>
      n \<noteq> [] \<longrightarrow> ?n = n"
    by (simp add: queryName_def)
  have empty: "\<forall>q. queryStringParameters event = Some q \<and> q (str ''name'') = Some [] \<longrightarrow>
      ?n = str ''World''"
    by (simp add: queryName_def)
  from response absent unnamed empty named show ?thesis by blast
qed

theorem get_greets_name_witness:
  "httpMethod (sampleEvent ''GET'' (Some (str ''Ada'')) None None) = str ''GET'' \<and>
   quoteUnits (str ''Ada'') = str ''Ada'' \<and>
   queryName (sampleEvent ''GET'' (Some (str ''Ada'')) None None) = str ''Ada'' \<and>
   isl (hello_handler sampleRuntime (sampleEvent ''GET'' (Some (str ''Ada'')) None None)) =
     False \<and>
   sublist (str ''Ada'')
     (body (projr (hello_handler sampleRuntime
        (sampleEvent ''GET'' (Some (str ''Ada'')) None None))))"
proof -
  let ?e = "sampleEvent ''GET'' (Some (str ''Ada'')) None None"
  have m: "httpMethod ?e = str ''GET''" by (simp add: sampleEvent_def)
  have n: "queryName ?e = str ''Ada''" by (simp add: sampleEvent_def queryName_def str_def)
  have q: "quoteUnits (str ''Ada'') = str ''Ada''"
    by (simp add: str_def escapeUnit_def isHighSurrogate_def isLowSurrogate_def)
  from get_greets_name [OF m, of sampleRuntime] n q m show ?thesis by auto
qed

text \<open>
  The name \<open>a"b\<close> is not in the body, which holds it with the quote escaped.
\<close>

theorem get_quoted_name_counterexample:
  "httpMethod (sampleEvent ''GET'' (Some [0x61, 0x22, 0x62]) None None) = str ''GET'' \<and>
   queryName (sampleEvent ''GET'' (Some [0x61, 0x22, 0x62]) None None) = [0x61, 0x22, 0x62] \<and>
   isl (hello_handler sampleRuntime
     (sampleEvent ''GET'' (Some [0x61, 0x22, 0x62]) None None)) = False \<and>
   statusCode (projr (hello_handler sampleRuntime
     (sampleEvent ''GET'' (Some [0x61, 0x22, 0x62]) None None))) = 200 \<and>
   sublist [0x61, 0x22, 0x62]
     (body (projr (hello_handler sampleRuntime
        (sampleEvent ''GET'' (Some [0x61, 0x22, 0x62]) None None)))) = False"
  by (simp add: sampleEvent_def sampleRuntime_def hello_handler_def handleGetRequest_def
      queryName_def tick_def functionNameOf_def QuoteJSONString_def escapeUnit_def
      isHighSurrogate_def isLowSurrogate_def str_def sublist_code)

text \<open>
  C4. The claim: a POST to the greeting handler whose body is present and is not valid
  JSON gets a 400 response; one whose body parses as JSON gets a 200 response whose
  message combines the body's \<open>name\<close> and \<open>message\<close>. The first half holds. The second
  holds when the parsed value is not \<open>null\<close> (so that its properties can be read) and
  the two fields, replaced by \<open>World\<close> and \<open>Hello\<close> when missing or falsy, convert to
  strings \<open>un\<close> and \<open>cm\<close>: the message is then \<open>cm un!\<close>.
\<close>

theorem post_parses_or_400:
  assumes "httpMethod event = str ''POST''" and "eventBody event = Some b" and "b \<noteq> []"
  shows "(jsonParse rt b = None \<longrightarrow>
            (\<exists>r. hello_handler rt event = Inr r \<and> statusCode r = 400)) \<and>
         (jsonParse rt b = Some j \<and>
          getProp j (str ''name'') = Inr n \<and> getProp j (str ''message'') = Inr m \<and>
          ToString (orElse m (JString (str ''Hello''))) = Inr cm \<and>
          ToString (orElse n (JString (str ''World''))) = Inr un \<longrightarrow>
            (\<exists>r. hello_handler rt event = Inr r \<and> statusCode r = 200 \<and>
               body r = JSON_stringify (JObject
                 [(str ''message'', JString (cm @ str '' '' @ un @ str ''!'')),
                  (str ''timestamp'', JString (isoTime rt 1)),
                  (str ''method'', JString (str ''POST'')),
                  (str ''receivedData'', j),
                  (str ''functionName'', JString (functionNameOf rt))])))"
  using assms
  by (simp add: hello_handler_def handlePostRequest_def parseRequestBody_def tick_def
      hello_createErrorResponse_def functionNameOf_def str_def)

theorem post_parses_or_400_witness:
  \<open>isl (hello_handler sampleRuntime
     (sampleEvent ''POST'' None None (Some (str ''{broken'')))) = False \<and>
   statusCode (projr (hello_handler sampleRuntime
     (sampleEvent ''POST'' None None (Some (str ''{broken''))))) = 400 \<and>
   isl (hello_handler sampleRuntime
     (sampleEvent ''POST'' None None
        (Some (str ''{"name":"Ada","message":"Welcome"}'')))) = False \<and>
   statusCode (projr (hello_handler sampleRuntime
     (sampleEvent ''POST'' None None
        (Some (str ''{"name":"Ada","message":"Welcome"}''))))) = 200\<close>
proof -
  let ?bad = "sampleEvent ''POST'' None None (Some (str ''{broken''))"
  let ?txt = \<open>str ''{"name":"Ada","message":"Welcome"}''\<close>
  let ?good = "sampleEvent ''POST'' None None (Some ?txt)"
  let ?j = "JObject [(str ''name'', JString (str ''Ada'')),
                     (str ''message'', JString (str ''Welcome''))]"
  have p1: "jsonParse sampleRuntime (str ''{broken'') = None"
    by (simp add: sampleRuntime_def str_def)
  have p2: "jsonParse sampleRuntime ?txt = Some ?j"
    by (simp add: sampleRuntime_def str_def)
  have g: "getProp ?j (str ''name'') = Inr (Some (JString (str ''Ada'')))"
      "getProp ?j (str ''message'') = Inr (Some (JString (str ''Welcome'')))"
      "ToString (orElse (Some (JString (str ''Welcome''))) (JString (str ''Hello''))) =
         Inr (str ''Welcome'')"
      "ToString (orElse (Some (JString (str ''Ada''))) (JString (str ''World''))) =
         Inr (str ''Ada'')"
    by (simp_all add: str_def orElse_def)
  have mb: "httpMethod ?bad = str ''POST''" "eventBody ?bad = Some (str ''{broken'')"
    and mg: "httpMethod ?good = str ''POST''" "eventBody ?good = Some ?txt"
    by (simp_all add: sampleEvent_def)
  have ne: "str ''{broken'' \<noteq> []" "?txt \<noteq> []"
    by (simp_all add: str_def)
  have a: "\<exists>r. hello_handler sampleRuntime ?bad = Inr r \<and> statusCode r = 400"
    using post_parses_or_400 [OF mb ne(1), of sampleRuntime] p1 by blast
  have b: "\<exists>r. hello_handler sampleRuntime ?good = Inr r \<and> statusCode r = 200"
    using post_parses_or_400 [OF mg ne(2), of sampleRuntime ?j "Some (JString (str ''Ada''))"
        "Some (JString (str ''Welcome''))" "str ''Welcome''" "str ''Ada''"] p2 g
    by blast
  from a b show ?thesis by auto
qed

text \<open>
  The body \<open>null\<close> parses as JSON, and the handler returns no response: reading
  \<open>requestBody.name\<close> throws, and the handler's promise is rejected.
\<close>

theorem post_null_body_counterexample:
  "httpMethod (sampleEvent ''POST'' None None (Some (str ''null''))) = str ''POST'' \<and>
   jsonParse sampleRuntime (str ''null'') = Some JNull \<and>
   hello_handler sampleRuntime (sampleEvent ''POST'' None None (Some (str ''null''))) = Inl TypeError"
  by (simp add: sampleEvent_def sampleRuntime_def hello_handler_def handlePostRequest_def
      parseRequestBody_def tick_def str_def)

text \<open>
  C5. For every POST to the todo handler whose body is absent (\<open>null\<close> or empty), or
  whose parsed body has no non-empty string \<open>content\<close>, the create operation returns an
  envelope with \<open>success = false\<close> and an error message, and the handler surfaces it:
  its response has status 400, the CORS headers, and for body the serialised envelope,
  \<open>success\<close> false and the operation's error.
\<close>

theorem create_without_content_fails:
  assumes "httpMethod event = str ''POST''"
    and "eventBody event = None \<or> eventBody event = Some [] \<or>
         (\<exists>b j. eventBody event = Some b \<and> jsonParse rt b = Some j \<and> \<not> validContent j)"
  shows "\<not> success (handleCreateTodo rt event) \<and>
         (\<exists>e. error (handleCreateTodo rt event) = Some e) \<and>
         (\<exists>e. handleCreateTodo (tick rt) event = failure e \<and>
              todo_handler rt event =
                Inr \<lparr>statusCode = 400, headers = corsHeaders,
                     body = JSON_stringify (JObject
                       [(str ''success'', JBool False), (str ''error'', JString e)])\<rparr>)"
proof -
  have fails: "\<exists>e. handleCreateTodo rt' event = failure e" if "jsonParse rt' = jsonParse rt" for rt'
  proof (cases "eventBody event = None \<or> eventBody event = Some []")
    case True
    then show ?thesis using create_no_body [of event rt'] by blast
  next
    case False
    with assms(2) obtain b j where bj: "eventBody event = Some b" "jsonParse rt b = Some j"
        "\<not> validContent j"
      by blast
    from False bj(1) have "b \<noteq> []" by simp
    moreover from bj(2) that have "jsonParse rt' b = Some j" by simp
    ultimately have "eventBody event = Some b \<and> b \<noteq> [] \<and> jsonParse rt' b = Some j \<and>
        \<not> validContent j"
      using bj by simp
    then show ?thesis using create_invalid_content [of event b rt' j] by blast
  qed
  from fails [of rt] obtain e where e: "handleCreateTodo rt event = failure e" by auto
  from fails [of "tick rt"] obtain e' where e': "handleCreateTodo (tick rt) event = failure e'"
    by auto
  have "respond (handleCreateTodo (tick rt) event) =
      \<lparr>statusCode = 400, headers = corsHeaders,
       body = JSON_stringify (JObject
         [(str ''success'', JBool False), (str ''error'', JString e')])\<rparr>"
    by (simp add: e' respond_def responseJson_def failure_def)
  then have "todo_handler rt event =
      Inr \<lparr>statusCode = 400, headers = corsHeaders,
           body = JSON_stringify (JObject
             [(str ''success'', JBool False), (str ''error'', JString e')])\<rparr>"
    using todo_handler_POST [OF assms(1), of rt] by simp
  with e' have "\<exists>e. handleCreateTodo (tick rt) event = failure e \<and>
      todo_handler rt event =
        Inr \<lparr>statusCode = 400, headers = corsHeaders,
             body = JSON_stringify (JObject
               [(str ''success'', JBool False), (str ''error'', JString e)])\<rparr>"
    by blast
  moreover have "\<not> success (handleCreateTodo rt event)"
    and "\<exists>e. error (handleCreateTodo rt event) = Some e"
    using e by (simp_all add: failure_def)
  ultimately show ?thesis by blast
qed

theorem create_without_content_fails_witness:
  \<open>\<not> success (handleCreateTodo sampleRuntime (sampleEvent ''POST'' None None None)) \<and>
   \<not> success (handleCreateTodo sampleRuntime (sampleEvent ''POST'' None None (Some []))) \<and>
   \<not> success (handleCreateTodo sampleRuntime
        (sampleEvent ''POST'' None None (Some (str ''{"content":""}'')))) \<and>
   \<not> success (handleCreateTodo sampleRuntime (sampleEvent ''POST'' None None (Some (str ''{}'')))) \<and>
   statusCode (projr (todo_handler sampleRuntime
        (sampleEvent ''POST'' None None (Some (str ''{"content":""}''))))) = 400\<close>
proof -
  let ?e = \<open>sampleEvent ''POST'' None None (Some (str ''{"content":""}''))\<close>
  let ?e2 = \<open>sampleEvent ''POST'' None None (Some (str ''{}''))\<close>
  have m: "httpMethod (sampleEvent ''POST'' None None b) = str ''POST''" for b
    by (simp add: sampleEvent_def)
  have b: "eventBody (sampleEvent ''POST'' None None b) = b" for b
    by (simp add: sampleEvent_def)
  have p: \<open>jsonParse sampleRuntime (str ''{"content":""}'') = Some (JObject [(str ''content'', JString [])])\<close>
    \<open>jsonParse sampleRuntime (str ''{}'') = Some (JObject [])\<close>
    by (simp_all add: sampleRuntime_def str_def)
  have v: "\<not> validContent (JObject [(str ''content'', JString [])])" "\<not> validContent (JObject [])"
    by (simp_all add: validContent_def)
  have h1: "\<exists>b j. eventBody ?e = Some b \<and> jsonParse sampleRuntime b = Some j \<and> \<not> validContent j"
    using b p(1) v(1) by blast
  have h2: "\<exists>b j. eventBody ?e2 = Some b \<and> jsonParse sampleRuntime b = Some j \<and> \<not> validContent j"
    using b p(2) v(2) by blast
  have h0: "eventBody (sampleEvent ''POST'' None None None) = None \<or>
      eventBody (sampleEvent ''POST'' None None None) = Some [] \<or>
      (\<exists>b j. eventBody (sampleEvent ''POST'' None None None) = Some b \<and>
         jsonParse sampleRuntime b = Some j \<and> \<not> validContent j)"
    by (simp add: b)
  have h0': "eventBody (sampleEvent ''POST'' None None (Some [])) = None \<or>
      eventBody (sampleEvent ''POST'' None None (Some [])) = Some [] \<or>
      (\<exists>b j. eventBody (sampleEvent ''POST'' None None (Some [])) = Some b \<and>
         jsonParse sampleRuntime b = Some j \<and> \<not> validContent j)"
    by (simp add: b)
  note none = create_without_content_fails [OF m h0]
  note blank = create_without_content_fails [OF m h0']
  note nocontent = create_without_content_fails [OF m disjI2, OF disjI2, OF h1]
  note noprops = create_without_content_fails [OF m disjI2, OF disjI2, OF h2]
  from nocontent obtain e where
    "todo_handler sampleRuntime ?e =
       Inr \<lparr>statusCode = 400, headers = corsHeaders,
            body = JSON_stringify (JObject
              [(str ''success'', JBool False), (str ''error'', JString e)])\<rparr>"
    by blast
  then have "statusCode (projr (todo_handler sampleRuntime ?e)) = 400" by simp
  with none [THEN conjunct1] blank [THEN conjunct1] nocontent [THEN conjunct1]
    noprops [THEN conjunct1]
  show ?thesis by simp
qed

text \<open>
  For a POST whose parsed body has a non-empty string \<open>content\<close>, the create operation
  returns \<open>success = true\<close> with an item of that content, whose identifier is the one
  \<open>generateUniqueId\<close> makes and is not empty.
\<close>

lemma create_with_content:
  assumes "eventBody event = Some b" and "b \<noteq> []" and "jsonParse rt b = Some j"
    and "getProp j (str ''content'') = Inr (Some (JString s))" and "s \<noteq> []"
  shows "\<exists>t. handleCreateTodo rt event =
            \<lparr>success = True, data = Some (OneItem t), message = Some msgCreateOk,
             error = None\<rparr> \<and>
          content t = JString s \<and> itemId t = generateUniqueId rt \<and> itemId t \<noteq> []"
proof -
  have "j \<noteq> JNull" using assms(4) by auto
  then obtain d where d: "getProp j (str ''isDone'') = Inr d"
    by (cases j) auto
  have "generateUniqueId rt \<noteq> []"
    by (simp add: generateUniqueId_def str_def)
  then show ?thesis
    using assms d by (simp add: handleCreateTodo_def createTodoTry_def)
qed

text \<open>
  C6. The claim: for a POST whose parsed body has a non-empty string \<open>content\<close>, the
  create operation returns \<open>success = true\<close> with an item of that content and a
  non-empty identifier, and the identifiers of any two such calls are distinct. The
  function that makes the identifier is \<open>generateUniqueId\<close>, documented to return a unique
  identifier; it joins the millisecond clock and nine digits of a random number, and
  nothing else tells two calls apart. Two calls in the same millisecond, for different
  items and with different random numbers that agree in their first nine digits, both
  succeed and get the same identifier.
\<close>

theorem generateUniqueId_collides:
  \<open>randomBase36 sampleRuntime = str ''0.k3j9x0q2mzp'' \<and>
   randomBase36 sampleRuntime2 = str ''0.k3j9x0q2m4c'' \<and>
   dateNow sampleRuntime2 = dateNow sampleRuntime \<and>
   success (handleCreateTodo sampleRuntime
       (sampleEvent ''POST'' None None (Some (str ''{"content":"buy milk"}'')))) \<and>
   success (handleCreateTodo sampleRuntime2
       (sampleEvent ''POST'' None None (Some (str ''{"content":"feed cat"}'')))) \<and>
   map_option itemId (itemOf (handleCreateTodo sampleRuntime
       (sampleEvent ''POST'' None None (Some (str ''{"content":"buy milk"}''))))) =
     Some (str ''todo-1714564800000-k3j9x0q2m'') \<and>
   map_option itemId (itemOf (handleCreateTodo sampleRuntime2
       (sampleEvent ''POST'' None None (Some (str ''{"content":"feed cat"}''))))) =
     Some (str ''todo-1714564800000-k3j9x0q2m'')\<close>
  by (simp add: handleCreateTodo_def createTodoTry_def sampleEvent_def sampleRuntime_def
      sampleRuntime2_def itemOf_def generateUniqueId_def orElse_def decimal.simps str_def)

text \<open>
  C7. For every PUT or DELETE request to the todo handler whose path parameters hold
  no identifier (none, or an empty one), the update and the delete operation each
  return an envelope with \<open>success = false\<close>, the error saying that the identifier is
  required.
\<close>

theorem update_delete_without_id_fail:
  assumes "pathId event = None \<or> pathId event = Some []"
  shows "\<not> success (handleUpdateTodo rt event) \<and>
         error (handleUpdateTodo rt event) = Some msgIdRequired \<and>
         \<not> success (handleDeleteTodo rt event) \<and>
         error (handleDeleteTodo rt event) = Some msgIdRequired"
  using assms
  by (auto simp: handleUpdateTodo_def updateTodoTry_def handleDeleteTodo_def failure_def)

theorem update_delete_without_id_fail_witness:
  "pathId (sampleEvent ''PUT'' None None (Some (str ''{}''))) = None \<and>
   \<not> success (handleUpdateTodo sampleRuntime (sampleEvent ''PUT'' None None (Some (str ''{}'')))) \<and>
   pathId (sampleEvent ''DELETE'' None None None) = None \<and>
   \<not> success (handleDeleteTodo sampleRuntime (sampleEvent ''DELETE'' None None None))"
proof -
  let ?u = "sampleEvent ''PUT'' None None (Some (str ''{}''))"
  let ?d = "sampleEvent ''DELETE'' None None None"
  have p: "pathId ?u = None" "pathId ?d = None"
    by (simp_all add: pathId_def sampleEvent_def)
  show ?thesis
    using p update_delete_without_id_fail [of ?u sampleRuntime]
      update_delete_without_id_fail [of ?d sampleRuntime]
    by simp
qed

text \<open>
  C8. For every event whose method the handler does not handle (neither GET nor POST
  for the greeting handler; none of GET, POST, PUT, DELETE, OPTIONS for the todo
  handler), the handler returns a response with status 405.
\<close>

theorem unsupported_method_405:
  "(httpMethod event \<noteq> str ''GET'' \<and> httpMethod event \<noteq> str ''POST'' \<longrightarrow>
      (\<exists>r. hello_handler rt event = Inr r \<and> statusCode r = 405)) \<and>
   (httpMethod event \<noteq> str ''GET'' \<and> httpMethod event \<noteq> str ''POST'' \<and>
    httpMethod event \<noteq> str ''PUT'' \<and> httpMethod event \<noteq> str ''DELETE'' \<and>
    httpMethod event \<noteq> str ''OPTIONS'' \<longrightarrow>
      (\<exists>r. todo_handler rt event = Inr r \<and> statusCode r = 405))"
  by (simp add: hello_handler_def todo_handler_def hello_createErrorResponse_def
      todo_createErrorResponse_def)

theorem unsupported_method_405_witness:
  "httpMethod (sampleEvent ''PATCH'' None None None) \<noteq> str ''GET'' \<and>
   httpMethod (sampleEvent ''PATCH'' None None None) \<noteq> str ''POST'' \<and>
   httpMethod (sampleEvent ''PATCH'' None None None) \<noteq> str ''PUT'' \<and>
   httpMethod (sampleEvent ''PATCH'' None None None) \<noteq> str ''DELETE'' \<and>
   httpMethod (sampleEvent ''PATCH'' None None None) \<noteq> str ''OPTIONS'' \<and>
   isl (hello_handler sampleRuntime (sampleEvent ''PATCH'' None None None)) = False \<and>
   statusCode (projr (hello_handler sampleRuntime (sampleEvent ''PATCH'' None None None))) = 405 \<and>
   isl (todo_handler sampleRuntime (sampleEvent ''PATCH'' None None None)) = False \<and>
   statusCode (projr (todo_handler sampleRuntime (sampleEvent ''PATCH'' None None None))) = 405"
proof -
  let ?e = "sampleEvent ''PATCH'' None None None"
  have m: "httpMethod ?e \<noteq> str ''GET''" "httpMethod ?e \<noteq> str ''POST''"
    "httpMethod ?e \<noteq> str ''PUT''" "httpMethod ?e \<noteq> str ''DELETE''"
    "httpMethod ?e \<noteq> str ''OPTIONS''"
    by (simp_all add: sampleEvent_def str_def)
  from unsupported_method_405 [of ?e sampleRuntime] m show ?thesis by auto
qed

text \<open>
  C9. The claim: for every PUT with a path identifier and a body that parses as JSON,
  the update operation returns \<open>success = true\<close> with an item of that identifier, the
  body's \<open>content\<close> and \<open>isDone\<close>, the creation time \<open>2024-01-01T00:00:00.000Z\<close> and a
  fresh update time. This holds when the parsed value is not \<open>null\<close> (so that its
  properties \<open>c\<close> and \<open>d\<close> can be read), with the fields as the code's defaults make
  them: a \<open>content\<close> that is missing or falsy, such as the empty string, becomes the
  default content, and an \<open>isDone\<close> that is missing or falsy becomes \<open>false\<close>. The update
  time is the operation's first reading of the clock.
\<close>

theorem update_echoes_fields:
  assumes "pathId event = Some i" and "i \<noteq> []"
    and "eventBody event = Some b" and "b \<noteq> []" and "jsonParse rt b = Some j"
    and "getProp j (str ''content'') = Inr c" and "getProp j (str ''isDone'') = Inr d"
  shows "handleUpdateTodo rt event =
           \<lparr>success = True,
            data = Some (OneItem
              \<lparr>itemId = i,
               content = orElse c (JString defaultContent),
               isDone = orElse d (JBool False),
               createdAt = str ''2024-01-01T00:00:00.000Z'',
               updatedAt = isoTime rt 0\<rparr>),
            message = Some msgUpdateOk, error = None\<rparr> \<and>
         (\<forall>v. c = Some v \<and> truthy v \<longrightarrow> orElse c (JString defaultContent) = v) \<and>
         (c = None \<or> c = Some (JString []) \<longrightarrow>
            orElse c (JString defaultContent) = JString defaultContent) \<and>
         (\<forall>v. d = Some (JBool v) \<longrightarrow> orElse d (JBool False) = JBool v) \<and>
         (d = None \<longrightarrow> orElse d (JBool False) = JBool False)"
  using assms
  by (auto simp: handleUpdateTodo_def updateTodoTry_def orElse_def)

theorem update_echoes_fields_witness:
  \<open>handleUpdateTodo sampleRuntime
     (sampleEvent ''PUT'' None (Some (str ''42'')) (Some (str ''{"content":"buy milk"}''))) =
     \<lparr>success = True,
      data = Some (OneItem
        \<lparr>itemId = str ''42'',
         content = JString (str ''buy milk''),
         isDone = JBool False,
         createdAt = str ''2024-01-01T00:00:00.000Z'',
         updatedAt = isoTime sampleRuntime 0\<rparr>),
      message = Some msgUpdateOk, error = None\<rparr>\<close>
proof -
  let ?txt = \<open>str ''{"content":"buy milk"}''\<close>
  let ?e = "sampleEvent ''PUT'' None (Some (str ''42'')) (Some ?txt)"
  let ?j = "JObject [(str ''content'', JString (str ''buy milk''))]"
  have h: "pathId ?e = Some (str ''42'')" "str ''42'' \<noteq> []"
    "eventBody ?e = Some ?txt" "?txt \<noteq> []" "jsonParse sampleRuntime ?txt = Some ?j"
    "getProp ?j (str ''content'') = Inr (Some (JString (str ''buy milk'')))"
    "getProp ?j (str ''isDone'') = Inr None"
    by (simp_all add: pathId_def sampleEvent_def sampleRuntime_def str_def)
  have o: "orElse (Some (JString (str ''buy milk''))) (JString defaultContent) = JString (str ''buy milk'')"
    "orElse None (JBool False) = JBool False"
    by (simp_all add: orElse_def str_def)
  from update_echoes_fields [OF h] show ?thesis
    by (simp only: o)
qed

text \<open>
  The body \<open>null\<close> parses as JSON and the update fails; the body \<open>{"content":""}\<close>
  supplies the empty content and the item gets the default content.
\<close>

theorem update_null_and_empty_counterexample:
  \<open>jsonParse sampleRuntime (str ''null'') = Some JNull \<and>
   handleUpdateTodo sampleRuntime
     (sampleEvent ''PUT'' None (Some (str ''42'')) (Some (str ''null''))) =
     failure msgUpdateFailed \<and>
   success (failure msgUpdateFailed) = False \<and>
   jsonParse sampleRuntime (str ''{"content":""}'') = Some (JObject [(str ''content'', JString [])]) \<and>
   map_option content (itemOf (handleUpdateTodo sampleRuntime
     (sampleEvent ''PUT'' None (Some (str ''42'')) (Some (str ''{"content":""}''))))) =
     Some (JString defaultContent) \<and>
   JString defaultContent \<noteq> JString []\<close>
  by (simp add: handleUpdateTodo_def updateTodoTry_def pathId_def sampleEvent_def
      sampleRuntime_def itemOf_def orElse_def failure_def defaultContent_def str_def)

text \<open>
  C10. For every POST to the greeting handler with an absent body (\<open>null\<close> or empty),
  the handler returns no error: it takes the body for the empty object and returns
  status 200 with the message \<open>Hello World!\<close>.
\<close>

theorem post_without_body_default:
  assumes "httpMethod event = str ''POST''" and "eventBody event = None \<or> eventBody event = Some []"
  shows "hello_handler rt event =
     Inr \<lparr>statusCode = 200, headers = hello_headers,
          body = JSON_stringify (JObject
            [(str ''message'', JString (str ''Hello World!'')),
             (str ''timestamp'', JString (isoTime rt 1)),
             (str ''method'', JString (str ''POST'')),
             (str ''receivedData'', JObject []),
             (str ''functionName'', JString (functionNameOf rt))])\<rparr>"
  using assms
  by (auto simp: hello_handler_def handlePostRequest_def parseRequestBody_def tick_def
      functionNameOf_def str_def orElse_def)

theorem post_without_body_default_witness:
  "statusCode (projr (hello_handler sampleRuntime (sampleEvent ''POST'' None None None))) = 200 \<and>
   isl (hello_handler sampleRuntime (sampleEvent ''POST'' None None None)) = False \<and>
   statusCode (projr (hello_handler sampleRuntime (sampleEvent ''POST'' None None (Some [])))) = 200 \<and>
   isl (hello_handler sampleRuntime (sampleEvent ''POST'' None None (Some []))) = False"
  using post_without_body_default [of "sampleEvent ''POST'' None None None" sampleRuntime]
    post_without_body_default [of "sampleEvent ''POST'' None None (Some [])" sampleRuntime]
  by (simp add: sampleEvent_def)

end
